theory Spec2Isabelle
  imports Complex_Main
begin

section \<open>Lateral trajectory optimizer: the problem formulation handed to the solver\<close>

text \<open>
  A shallow embedding of \<^verbatim>\<open>lateral_trajectory_optimizer.cc\<close>, the callback object
  that describes the lateral trajectory problem to an interior-point solver.

  Conventions of the embedding.
  \<^item> A \<^verbatim>\<open>double\<close> is a \<^typ>\<open>real\<close>: arithmetic is exact, there is no rounding,
    overflow, underflow or NaN. Every statement below is about that idealised arithmetic.
    The objective \<^verbatim>\<open>eval_f\<close> and its gradient are not embedded: where the objective
    vanishes is decided by underflow (the square of \<open>2\<^sup>-\<^sup>6\<^sup>0\<^sup>0\<close> is \<open>0\<close> in a \<^verbatim>\<open>double\<close>),
    which exact arithmetic cannot express.
  \<^item> A \<^verbatim>\<open>std::size_t\<close> is a \<^typ>\<open>nat\<close>. Sums and products of indices are far below
    \<open>2^64\<close> and are not reduced; the one subtraction of the source,
    \<^verbatim>\<open>num_of_points_ - 1\<close>, wraps around when there are no points and is written
    \<open>size_t_minus\<close>.
  \<^item> A buffer passed by pointer is a list that the callback returns updated
    (\<open>xs[i := v]\<close>); the theorems assume the buffers have the sizes the solver
    allocates, so that no store falls outside them.
  \<^item> A loop \<^verbatim>\<open>for (i = a; i < b; ++i)\<close> is a \<open>fold\<close> of its body over \<open>[a..<b]\<close>;
    the loops \<^verbatim>\<open>for (i = 0; i + 1 < N; ++i)\<close> run over \<open>[0..<N - 1]\<close>, which is empty
    for \<open>N = 0\<close> as in the source.
  \<^item> A failed \<^verbatim>\<open>CHECK\<close> aborts the process: the callbacks that contain one return
    \<open>error + result\<close>.
  \<^item> Member names end in \<open>_m\<close> where the source has a trailing underscore.
\<close>

datatype error = CheckFailed

fun bind :: "error + 'a \<Rightarrow> ('a \<Rightarrow> error + 'b) \<Rightarrow> error + 'b" where
  "bind (Inl e) f = Inl e"
| "bind (Inr a) f = f a"

definition size_t_minus :: "nat \<Rightarrow> nat \<Rightarrow> nat" where
  "size_t_minus a b = (if b \<le> a then a - b else a + 2 ^ 64 - b)"

definition size_t_of_int :: "int \<Rightarrow> nat" where
  \<comment> \<open>the conversion \<^verbatim>\<open>std::size_t(n)\<close> of an \<^verbatim>\<open>int\<close>\<close>
  "size_t_of_int n = nat (n mod 2 ^ 64)"

subsection \<open>Collaborating classes\<close>

text \<open>
  Modelled from the spec: the class \<^verbatim>\<open>ConstantJerkTrajectory1d\<close>
  (\<^verbatim>\<open>trajectory1d/constant_jerk_trajectory1d.h\<close>), whose source is not at hand. The
  single-segment kinematic sample: given \<open>(p0, v0, a0, jerk, \<Delta>s)\<close> it yields the
  velocity \<open>v0 + a0\<cdot>\<Delta>s + \<onehalf>\<cdot>jerk\<cdot>\<Delta>s\<^sup>2\<close> and the position
  \<open>p0 + v0\<cdot>\<Delta>s + \<onehalf>\<cdot>a0\<cdot>\<Delta>s\<^sup>2 + \<^sup>1/\<^sub>6\<cdot>jerk\<cdot>\<Delta>s\<^sup>3\<close> at the end of the segment.
\<close>

record ConstantJerkTrajectory1d =
  p0_m :: real
  v0_m :: real
  a0_m :: real
  jerk_m :: real
  param_m :: real

definition ConstantJerkTrajectory1d_new ::
  "real \<Rightarrow> real \<Rightarrow> real \<Rightarrow> real \<Rightarrow> real \<Rightarrow> ConstantJerkTrajectory1d" where
  "ConstantJerkTrajectory1d_new p0 v0 a0 j param =
     \<lparr>p0_m = p0, v0_m = v0, a0_m = a0, jerk_m = j, param_m = param\<rparr>"

definition end_velocity :: "ConstantJerkTrajectory1d \<Rightarrow> real" where
  "end_velocity t =
     v0_m t + a0_m t * param_m t + 1 / 2 * jerk_m t * (param_m t) ^ 2"

definition end_position :: "ConstantJerkTrajectory1d \<Rightarrow> real" where
  "end_position t =
     p0_m t + v0_m t * param_m t + 1 / 2 * a0_m t * (param_m t) ^ 2
       + 1 / 6 * jerk_m t * (param_m t) ^ 3"

text \<open>
  Modelled from the spec: the class \<^verbatim>\<open>PiecewiseJerkTrajectory1d\<close>, whose source is not
  at hand. The result trajectory: the frozen initial state \<open>(d0, d0', d0'')\<close> and an
  append-only, ordered sequence of segments \<open>(jerk, \<Delta>s)\<close>.
\<close>

record PiecewiseJerkTrajectory1d =
  initial_state :: "real \<times> real \<times> real"
  segments :: "(real \<times> real) list"

definition PiecewiseJerkTrajectory1d_new ::
  "real \<Rightarrow> real \<Rightarrow> real \<Rightarrow> PiecewiseJerkTrajectory1d" where
  "PiecewiseJerkTrajectory1d_new p v a = \<lparr>initial_state = (p, v, a), segments = []\<rparr>"

definition AppendSegment ::
  "real \<Rightarrow> real \<Rightarrow> PiecewiseJerkTrajectory1d \<Rightarrow> PiecewiseJerkTrajectory1d" where
  "AppendSegment jerk param t = t\<lparr>segments := segments t @ [(jerk, param)]\<rparr>"

text \<open>
  The solver's terminal status, \<^verbatim>\<open>Ipopt::SolverReturn\<close> (an enumeration of the solver
  library); \<open>SUCCESS\<close> is the converged status.
\<close>

datatype SolverReturn =
    SUCCESS | MAXITER_EXCEEDED | CPUTIME_EXCEEDED | STOP_AT_TINY_STEP
  | STOP_AT_ACCEPTABLE_POINT | LOCAL_INFEASIBILITY | USER_REQUESTED_STOP
  | FEASIBLE_POINT_FOUND | DIVERGING_ITERATES | RESTORATION_FAILURE
  | ERROR_IN_STEP_COMPUTATION | INVALID_NUMBER_DETECTED
  | TOO_FEW_DEGREES_OF_FREEDOM | INVALID_OPTION | OUT_OF_MEMORY
  | INTERNAL_ERROR | UNASSIGNED

datatype IndexStyleEnum = C_STYLE | FORTRAN_STYLE

subsection \<open>The optimizer object and its constructor\<close>

record LateralTrajectoryOptimizer =
  num_of_variables_m :: nat
  num_of_points_m :: nat
  nnz_jac_g_m :: nat
  d_init_m :: real
  d_prime_init_m :: real
  d_pprime_init_m :: real
  delta_s_m :: real
  d_ppprime_max_m :: real
  d_bounds_m :: "(real \<times> real) list"
  w_d_m :: real
  w_d_prime_m :: real
  w_d_pprime_m :: real
  w_d_obs_m :: real
  opt_piecewise_trajectory_m :: PiecewiseJerkTrajectory1d

text \<open>
  The constructor. Its first argument \<open>hdr\<close> is the object as the member declarations
  of the class leave it before the constructor body runs (the header with these
  declarations and their default initialisers is not at hand, so they are a parameter).
  The body has no check and no early exit: it initialises the result trajectory from
  the initial state and assigns the point count, the variable count, the step, the
  corridor bounds and the four weights. It assigns none of \<^verbatim>\<open>d_init_\<close>,
  \<^verbatim>\<open>d_prime_init_\<close>, \<^verbatim>\<open>d_pprime_init_\<close>, \<^verbatim>\<open>d_ppprime_max_\<close> and \<^verbatim>\<open>nnz_jac_g_\<close>.
\<close>

definition LateralTrajectoryOptimizer_new ::
  "LateralTrajectoryOptimizer \<Rightarrow> real \<Rightarrow> real \<Rightarrow> real \<Rightarrow> real \<Rightarrow> (real \<times> real) list
     \<Rightarrow> error + LateralTrajectoryOptimizer" where
  "LateralTrajectoryOptimizer_new hdr d_init d_prime_init d_pprime_init delta_s d_bounds =
     Inr (hdr\<lparr>opt_piecewise_trajectory_m :=
                 PiecewiseJerkTrajectory1d_new d_init d_prime_init d_pprime_init,
               num_of_points_m := length d_bounds,
               num_of_variables_m := 3 * length d_bounds,
               delta_s_m := delta_s,
               d_bounds_m := d_bounds,
               w_d_m := 1,
               w_d_prime_m := 1,
               w_d_pprime_m := 1,
               w_d_obs_m := 1\<rparr>)"

subsection \<open>Sizes, bounds and starting point\<close>

definition get_nlp_info ::
  "LateralTrajectoryOptimizer \<Rightarrow> int \<Rightarrow> int \<Rightarrow> int \<Rightarrow> int \<Rightarrow> IndexStyleEnum
     \<Rightarrow> bool \<times> int \<times> int \<times> int \<times> int \<times> IndexStyleEnum" where
  \<comment> \<open>result: return value, \<open>n\<close>, \<open>m\<close>, \<open>nnz_jac_g\<close> (never assigned), \<open>nnz_h_lag\<close>,
      \<open>index_style\<close>\<close>
  "get_nlp_info p n m nnz_jac_g nnz_h_lag index_style =
     (let n = int (num_of_points_m p * 3);
          m = int (num_of_points_m p * 3);
          nnz_h_lag = n;
          index_style = C_STYLE
      in (True, n, m, nnz_jac_g, nnz_h_lag, index_style))"

definition get_bounds_info ::
  "LateralTrajectoryOptimizer \<Rightarrow> int \<Rightarrow> real list \<Rightarrow> real list \<Rightarrow> int \<Rightarrow> real list
     \<Rightarrow> real list \<Rightarrow> bool \<times> real list \<times> real list \<times> real list \<times> real list" where
  \<comment> \<open>result: return value, \<open>x_l\<close>, \<open>x_u\<close>, \<open>g_l\<close>, \<open>g_u\<close>\<close>
  "get_bounds_info p n x_l x_u m g_l g_u =
     (let LARGE_VALUE = 10;
          (x_l, x_u) =
            fold (\<lambda>i (x_l, x_u).
                    (x_l[i := fst (d_bounds_m p ! i)], x_u[i := snd (d_bounds_m p ! i)]))
              [0..<num_of_points_m p] (x_l, x_u);
          offset = num_of_points_m p;
          (x_l, x_u) =
            fold (\<lambda>i (x_l, x_u).
                    (x_l[offset + i := - LARGE_VALUE], x_u[offset + i := LARGE_VALUE]))
              [0..<num_of_points_m p] (x_l, x_u);
          offset = 2 * num_of_points_m p;
          (x_l, x_u) =
            fold (\<lambda>i (x_l, x_u).
                    (x_l[offset + i := - LARGE_VALUE], x_u[offset + i := LARGE_VALUE]))
              [0..<num_of_points_m p] (x_l, x_u);
          (g_l, g_u) =
            fold (\<lambda>i (g_l, g_u).
                    (g_l[i := - d_ppprime_max_m p * delta_s_m p],
                     g_u[i := d_ppprime_max_m p * delta_s_m p]))
              [0..<num_of_points_m p - 1] (g_l, g_u);
          offset = size_t_minus (num_of_points_m p) 1;
          (g_l, g_u) =
            fold (\<lambda>i (g_l, g_u). (g_l[offset + i := 0], g_u[offset + i := 0]))
              [0..<num_of_points_m p - 1] (g_l, g_u);
          offset = 2 * size_t_minus (num_of_points_m p) 1;
          (g_l, g_u) =
            fold (\<lambda>i (g_l, g_u). (g_l[offset + i := 0], g_u[offset + i := 0]))
              [0..<num_of_points_m p - 1] (g_l, g_u);
          offset = 3 * size_t_minus (num_of_points_m p) 1;
          g_u = g_u[offset := 0];
          g_l = g_l[offset := 0];
          g_u = g_u[offset + 1 := 0];
          g_l = g_l[offset + 1 := 0];
          g_u = g_u[offset + 2 := 0];
          g_l = g_l[offset + 2 := 0]
      in (True, x_l, x_u, g_l, g_u))"

definition get_starting_point ::
  "LateralTrajectoryOptimizer \<Rightarrow> int \<Rightarrow> bool \<Rightarrow> real list \<Rightarrow> bool \<Rightarrow> real list
     \<Rightarrow> real list \<Rightarrow> int \<Rightarrow> bool \<Rightarrow> real list
     \<Rightarrow> error + bool \<times> real list \<times> real list \<times> real list \<times> real list" where
  \<comment> \<open>result: return value, \<open>x\<close>, \<open>z_L\<close>, \<open>z_U\<close>, \<open>lambda\<close>; the source returns \<open>false\<close>\<close>
  "get_starting_point p n init_x x init_z z_L z_U m init_lambda lambda =
     (if size_t_of_int n \<noteq> num_of_points_m p * 3 then Inl CheckFailed
      else if \<not> init_x then Inl CheckFailed
      else if init_z then Inl CheckFailed
      else if init_lambda then Inl CheckFailed
      else
        let x = fold (\<lambda>i x. x[i := 0,
                               num_of_points_m p + i := 0,
                               num_of_points_m p + num_of_points_m p + i := 0])
                  [0..<num_of_points_m p] x;
            x = x[0 := d_init_m p];
            x = x[num_of_points_m p := d_prime_init_m p];
            x = x[num_of_points_m p + num_of_points_m p := d_pprime_init_m p]
        in Inr (False, x, z_L, z_U, lambda))"

subsection \<open>Constraints\<close>

definition eval_g ::
  "LateralTrajectoryOptimizer \<Rightarrow> int \<Rightarrow> real list \<Rightarrow> bool \<Rightarrow> int \<Rightarrow> real list
     \<Rightarrow> bool \<times> real list" where
  \<comment> \<open>result: return value, \<open>g\<close>\<close>
  "eval_g p n x new_x m g =
     (let offset_prime = num_of_points_m p;
          offset_pprime = 2 * num_of_points_m p;
          g = fold (\<lambda>i g. g[i := x ! (offset_pprime + i + 1) - x ! (offset_pprime + i)])
                [0..<num_of_points_m p - 1] g;
          g = fold (\<lambda>i g.
                      let p0 = x ! i;
                          v0 = x ! (offset_prime + i);
                          a0 = x ! (offset_pprime + i);
                          p1 = x ! (i + 1);
                          v1 = x ! (offset_prime + i + 1);
                          a1 = x ! (offset_pprime + i + 1);
                          j = (a1 - a0) / delta_s_m p;
                          t = ConstantJerkTrajectory1d_new p0 v0 a0 j (delta_s_m p)
                      in g[size_t_minus (num_of_points_m p) 1 + i := end_velocity t - v1,
                           2 * size_t_minus (num_of_points_m p) 1 + i := end_position t - p1])
                [0..<num_of_points_m p - 1] g;
          offset = 3 * size_t_minus (num_of_points_m p) 1;
          g = g[offset := x ! 0 - d_init_m p];
          g = g[offset + 1 := x ! offset_prime - d_prime_init_m p];
          g = g[offset + 2 := x ! offset_pprime - d_pprime_init_m p]
      in (True, g))"

subsection \<open>Constraint Jacobian\<close>

text \<open>
  The structure phase walks a state \<open>(nz_index, constraint_index, iRow, jCol)\<close>.
  \<open>put_entry col\<close> is the source's triple of statements
  \<^verbatim>\<open>iRow[nz_index] = constraint_index; jCol[nz_index] = col; ++nz_index;\<close>
  and \<open>next_constraint\<close> is \<^verbatim>\<open>++constraint_index;\<close>.
  The value phase walks \<open>(nz_index, values)\<close>; \<open>put_value v\<close> is
  \<^verbatim>\<open>values[nz_index] = v; ++nz_index;\<close>.
\<close>

definition put_entry ::
  "nat \<Rightarrow> nat \<times> nat \<times> int list \<times> int list \<Rightarrow> nat \<times> nat \<times> int list \<times> int list" where
  "put_entry col s =
     (case s of (nz_index, constraint_index, iRow, jCol) \<Rightarrow>
        (nz_index + 1, constraint_index,
         iRow[nz_index := int constraint_index], jCol[nz_index := int col]))"

definition next_constraint ::
  "nat \<times> nat \<times> int list \<times> int list \<Rightarrow> nat \<times> nat \<times> int list \<times> int list" where
  "next_constraint s =
     (case s of (nz_index, constraint_index, iRow, jCol) \<Rightarrow>
        (nz_index, constraint_index + 1, iRow, jCol))"

definition put_value :: "real \<Rightarrow> nat \<times> real list \<Rightarrow> nat \<times> real list" where
  "put_value v s = (case s of (nz_index, values) \<Rightarrow> (nz_index + 1, values[nz_index := v]))"

definition fill :: "real list \<Rightarrow> nat \<Rightarrow> real \<Rightarrow> real list" where
  \<comment> \<open>\<^verbatim>\<open>std::fill(values, values + k, c)\<close>\<close>
  "fill values k c = fold (\<lambda>i values. values[i := c]) [0..<k] values"

definition eval_jac_g ::
  "LateralTrajectoryOptimizer \<Rightarrow> int \<Rightarrow> real list \<Rightarrow> bool \<Rightarrow> int \<Rightarrow> int \<Rightarrow> int list
     \<Rightarrow> int list \<Rightarrow> real list option
     \<Rightarrow> error + bool \<times> LateralTrajectoryOptimizer \<times> int list \<times> int list \<times> real list option" where
  \<comment> \<open>\<open>values = None\<close> is the null pointer. Result: return value, the object (the structure
      phase stores \<^verbatim>\<open>nnz_jac_g_\<close>), \<open>iRow\<close>, \<open>jCol\<close>, \<open>values\<close>\<close>
  "eval_jac_g p n x new_x m nele_jac iRow jCol values =
     (if size_t_of_int n \<noteq> num_of_points_m p * 3 then Inl CheckFailed
      else if size_t_of_int m \<noteq> num_of_points_m p * 3 then Inl CheckFailed
      else
        case values of
          None \<Rightarrow>
            let s = (0, 0, iRow, jCol);
                s = fold (\<lambda>variable_index s.
                            next_constraint
                              (put_entry (2 * num_of_points_m p + variable_index + 1)
                                (put_entry (2 * num_of_points_m p + variable_index) s)))
                      [0..<num_of_points_m p - 1] s;
                s = fold (\<lambda>variable_index s.
                            next_constraint
                              (put_entry (2 * num_of_points_m p + variable_index + 1)
                                (put_entry (2 * num_of_points_m p + variable_index)
                                  (put_entry (num_of_points_m p + variable_index + 1)
                                    (put_entry (num_of_points_m p + variable_index) s)))))
                      [0..<num_of_points_m p - 1] s;
                s = fold (\<lambda>variable_index s.
                            next_constraint
                              (put_entry (2 * num_of_points_m p + variable_index + 1)
                                (put_entry (2 * num_of_points_m p + variable_index)
                                  (put_entry (num_of_points_m p + variable_index)
                                    (put_entry (variable_index + 1)
                                      (put_entry variable_index s))))))
                      [0..<num_of_points_m p - 1] s;
                s = put_entry 0 s;
                s = put_entry (num_of_points_m p) s;
                s = put_entry (2 * num_of_points_m p) s
            in (case s of (nz_index, constraint_index, iRow, jCol) \<Rightarrow>
                  Inr (True, p\<lparr>nnz_jac_g_m := nz_index\<rparr>, iRow, jCol, None))
        | Some values \<Rightarrow>
            let values = fill values (nnz_jac_g_m p) 0;
                s = (0, values);
                s = fold (\<lambda>variable_index s. put_value (- 1) (put_value 1 s))
                      [0..<num_of_points_m p - 1] s;
                s = fold (\<lambda>variable_index s.
                            put_value (1 / 2 * delta_s_m p)
                              (put_value (1 / 2 * delta_s_m p)
                                (put_value (- 1) (put_value 1 s))))
                      [0..<num_of_points_m p - 1] s;
                s = fold (\<lambda>variable_index s.
                            put_value (delta_s_m p * delta_s_m p / 6)
                              (put_value (delta_s_m p * delta_s_m p / 3)
                                (put_value (delta_s_m p)
                                  (put_value (- 1) (put_value 1 s)))))
                      [0..<num_of_points_m p - 1] s;
                s = fold (\<lambda>order s. put_value 1 s) [0..<3] s
            in (case s of (nz_index, values) \<Rightarrow>
                  if nz_index \<noteq> nnz_jac_g_m p then Inl CheckFailed
                  else Inr (True, p, iRow, jCol, Some values)))"

subsection \<open>Hessian of the Lagrangian\<close>

definition eval_h ::
  "LateralTrajectoryOptimizer \<Rightarrow> int \<Rightarrow> real list \<Rightarrow> bool \<Rightarrow> real \<Rightarrow> int \<Rightarrow> real list
     \<Rightarrow> bool \<Rightarrow> int \<Rightarrow> int list \<Rightarrow> int list \<Rightarrow> real list option
     \<Rightarrow> bool \<times> int list \<times> int list \<times> real list option" where
  \<comment> \<open>\<open>values = None\<close> is the null pointer. Result: return value, \<open>iRow\<close>, \<open>jCol\<close>,
      \<open>values\<close>\<close>
  "eval_h p n x new_x obj_factor m lambda new_lambda nele_hess iRow jCol values =
     (case values of
        None \<Rightarrow>
          let (iRow, jCol) =
                fold (\<lambda>i (iRow, jCol). (iRow[i := int i], jCol[i := int i]))
                  [0..<3 * num_of_points_m p] (iRow, jCol)
          in (True, iRow, jCol, None)
      | Some values \<Rightarrow>
          let values = fold (\<lambda>i values. values[i := 4]) [0..<num_of_points_m p] values;
              values = fold (\<lambda>i values. values[i := 2])
                         [num_of_points_m p..<3 * num_of_points_m p] values
          in (True, iRow, jCol, Some values))"

subsection \<open>Taking over the solution\<close>

definition finalize_solution ::
  "LateralTrajectoryOptimizer \<Rightarrow> SolverReturn \<Rightarrow> int \<Rightarrow> real list \<Rightarrow> real list \<Rightarrow> real list
     \<Rightarrow> int \<Rightarrow> real list \<Rightarrow> real list \<Rightarrow> real \<Rightarrow> LateralTrajectoryOptimizer" where
  \<comment> \<open>the solver's \<^verbatim>\<open>ip_data\<close> and \<^verbatim>\<open>ip_cq\<close> are not read and are left out\<close>
  "finalize_solution p status n x z_L z_U m g lambda obj_value =
     (let offset = num_of_points_m p * 2;
          t = fold (\<lambda>i t.
                      let j = (x ! offset - x ! (offset - 1)) / delta_s_m p
                      in AppendSegment j (delta_s_m p) t)
                [1..<num_of_points_m p] (opt_piecewise_trajectory_m p)
      in p\<lparr>opt_piecewise_trajectory_m := t\<rparr>)"

definition GetOptimalTrajectory :: "LateralTrajectoryOptimizer \<Rightarrow> PiecewiseJerkTrajectory1d" where
  "GetOptimalTrajectory p = opt_piecewise_trajectory_m p"

subsection \<open>A concrete instance\<close>

text \<open>
  An object before construction with every numeric member zero, and the instance built
  from it over \<open>n\<close> corridors \<open>[-1, 1]\<close> with step \<open>1\<close> and initial state \<open>(1, 2, 3)\<close>;
  they are the inputs of the concrete evaluations below.
\<close>

definition example_hdr :: LateralTrajectoryOptimizer where
  "example_hdr =
     \<lparr>num_of_variables_m = 0, num_of_points_m = 0, nnz_jac_g_m = 0,
      d_init_m = 0, d_prime_init_m = 0, d_pprime_init_m = 0,
      delta_s_m = 0, d_ppprime_max_m = 0, d_bounds_m = [],
      w_d_m = 1, w_d_prime_m = 1, w_d_pprime_m = 1, w_d_obs_m = 1,
      opt_piecewise_trajectory_m = PiecewiseJerkTrajectory1d_new 0 0 0\<rparr>"

definition example_opt :: "nat \<Rightarrow> LateralTrajectoryOptimizer" where
  "example_opt n =
     projr (LateralTrajectoryOptimizer_new example_hdr 1 2 3 1 (replicate n (- 1, 1)))"

section \<open>Properties\<close>

subsection \<open>Loops that store into buffers\<close>

lemma fold_pair_split:
  "fold (\<lambda>i (a, b). (F i a, G i b)) is (a, b) = (fold F is a, fold G is b)"
  by (induction "is" arbitrary: a b) simp_all

lemma length_fold_upd [simp]:
  "length (fold (\<lambda>i b. b[f i := v i]) is b) = length b"
  by (induction "is" arbitrary: b) simp_all

lemma nth_fold_upd:
  "j < length b \<Longrightarrow>
   fold (\<lambda>i b. b[off + i := v i]) [a..<c] b ! j =
     (if off + a \<le> j \<and> j < off + c then v (j - off) else b ! j)"
proof (induction c)
  case 0
  then show ?case by auto
next
  case (Suc c)
  show ?case
  proof (cases "a \<le> c")
    case True
    have eq: "[a..<Suc c] = [a..<c] @ [c]" using True by simp
    have len: "j < length (fold (\<lambda>i b. b[off + i := v i]) [a..<c] b)"
      using Suc.prems by simp
    show ?thesis
      using Suc.IH [OF Suc.prems] True len
      by (cases "j = off + c") (simp_all add: eq nth_list_update)
  next
    case False
    then show ?thesis by auto
  qed
qed

lemma nth_fold_upd0:
  "j < length b \<Longrightarrow>
   fold (\<lambda>i b. b[i := v i]) [a..<c] b ! j = (if a \<le> j \<and> j < c then v j else b ! j)"
  using nth_fold_upd [where off = 0 and v = v and a = a and c = c and b = b and j = j] by simp

lemma nth_upd:
  "j < length xs \<Longrightarrow> xs[i := v] ! j = (if i = j then v else xs ! j)"
  by (cases "i = j") simp_all

lemma nth_fold_upd3:
  "j < length b \<Longrightarrow>
   fold (\<lambda>i b. b[i := u, o1 + i := u, o2 + i := u]) [0..<k] b ! j =
     (if j < k \<or> (o1 \<le> j \<and> j < o1 + k) \<or> (o2 \<le> j \<and> j < o2 + k) then u else b ! j)"
proof (induction k)
  case 0
  then show ?case by auto
next
  case (Suc k)
  have len: "length (fold (\<lambda>i b. b[i := u, o1 + i := u, o2 + i := u]) [0..<k] b) = length b"
    by (induction k) simp_all
  show ?case
    using Suc.IH [OF Suc.prems] Suc.prems len
    by (auto simp: nth_upd)
qed

lemma length_fold_upd3:
  "length (fold (\<lambda>i b. b[i := u, o1 + i := u, o2 + i := u]) [0..<k] b) = length b"
  by (induction k) simp_all

lemma size_t_minus_1: "0 < n \<Longrightarrow> size_t_minus n 1 = n - 1"
  by (simp add: size_t_minus_def)

lemma nth_fold_upd2:
  assumes "j < length b" and "o1 + k \<le> o2"
  shows "fold (\<lambda>i b. b[o1 + i := u i, o2 + i := w i]) [0..<k] b ! j =
     (if o1 \<le> j \<and> j < o1 + k then u (j - o1)
      else if o2 \<le> j \<and> j < o2 + k then w (j - o2) else b ! j)"
  using assms
proof (induction k)
  case 0
  then show ?case by auto
next
  case (Suc k)
  define F where "F = fold (\<lambda>i b. b[o1 + i := u i, o2 + i := w i]) [0..<k] b"
  have len: "length F = length b"
    unfolding F_def by (induction k) simp_all
  have "o1 + k \<le> o2" using Suc.prems by simp
  from Suc.IH [OF Suc.prems(1) this]
  have IH: "F ! j = (if o1 \<le> j \<and> j < o1 + k then u (j - o1)
      else if o2 \<le> j \<and> j < o2 + k then w (j - o2) else b ! j)"
    unfolding F_def .
  have step: "fold (\<lambda>i b. b[o1 + i := u i, o2 + i := w i]) [0..<Suc k] b
                = F[o1 + k := u k, o2 + k := w k]"
    unfolding F_def by simp
  have upd: "F[o1 + k := u k, o2 + k := w k] ! j =
      (if o2 + k = j then w k else if o1 + k = j then u k else F ! j)"
    using Suc.prems(1) len by (simp add: nth_upd)
  show ?case
    unfolding step upd IH using Suc.prems(2) by auto
qed

lemma example_opt_simps [simp]:
  "num_of_points_m (example_opt n) = n"
  "delta_s_m (example_opt n) = 1"
  "d_bounds_m (example_opt n) = replicate n (- 1, 1)"
  "w_d_m (example_opt n) = 1"
  "w_d_prime_m (example_opt n) = 1"
  "w_d_pprime_m (example_opt n) = 1"
  "w_d_obs_m (example_opt n) = 1"
  "d_init_m (example_opt n) = 0"
  "d_prime_init_m (example_opt n) = 0"
  "d_pprime_init_m (example_opt n) = 0"
  "d_ppprime_max_m (example_opt n) = 0"
  "nnz_jac_g_m (example_opt n) = 0"
  "opt_piecewise_trajectory_m (example_opt n) = PiecewiseJerkTrajectory1d_new 1 2 3"
  by (simp_all add: example_opt_def example_hdr_def LateralTrajectoryOptimizer_new_def)

subsection \<open>Sizes\<close>

lemma get_nlp_info_sizes:
  "get_nlp_info p n m nnz_jac_g nnz_h_lag index_style =
     (True, int (num_of_points_m p * 3), int (num_of_points_m p * 3), nnz_jac_g,
      int (num_of_points_m p * 3), C_STYLE)"
  by (simp add: get_nlp_info_def Let_def)

subsection \<open>Construction\<close>

text \<open>
  C4, as the code has it: construction performs no validation. For every initial state,
  step length and corridor sequence, including fewer than two corridor pairs, a
  non-positive step and a pair whose lower bound exceeds its upper bound, the
  constructor succeeds and stores the point count, the step and the corridors as given.
\<close>

theorem constructor_never_fails:
  "\<exists>p. LateralTrajectoryOptimizer_new hdr d_init d_prime_init d_pprime_init delta_s d_bounds
          = Inr p
      \<and> num_of_points_m p = length d_bounds
      \<and> delta_s_m p = delta_s
      \<and> d_bounds_m p = d_bounds"
  by (simp add: LateralTrajectoryOptimizer_new_def)

text \<open>
  C4, as stated, fails: construction with no corridor pair, with step \<open>0\<close>, and with the
  inverted pair \<open>(1, 0)\<close> each return an object, not an error.
\<close>

theorem constructor_accepts_malformed_input:
  "\<not> isl (LateralTrajectoryOptimizer_new example_hdr 0 0 0 1 [])
   \<and> \<not> isl (LateralTrajectoryOptimizer_new example_hdr 0 0 0 0 [(- 1, 1), (- 1, 1)])
   \<and> \<not> isl (LateralTrajectoryOptimizer_new example_hdr 0 0 0 1 [(1, 0), (- 1, 1)])"
  by (simp add: LateralTrajectoryOptimizer_new_def)

subsection \<open>Taking over the solution\<close>

lemma fold_AppendSegment:
  "fold (\<lambda>i t. AppendSegment j d t) is t =
     t\<lparr>segments := segments t @ replicate (length is) (j, d)\<rparr>"
proof (induction "is" arbitrary: t)
  case Nil
  then show ?case by simp
next
  case (Cons i "is")
  show ?case
    by (simp add: Cons.IH) (simp add: AppendSegment_def)
qed

text \<open>
  What the loop of \<open>finalize_solution\<close> appends: \<open>N - 1\<close> copies of one segment, whose jerk
  is computed from the fixed pair \<open>x[2N]\<close>, \<open>x[2N - 1]\<close> (the loop index does not occur in
  the loop body).
\<close>

lemma finalize_solution_segments:
  "segments (GetOptimalTrajectory (finalize_solution p status n x z_L z_U m g lambda obj_value)) =
     segments (opt_piecewise_trajectory_m p)
       @ replicate (num_of_points_m p - 1)
           ((x ! (num_of_points_m p * 2) - x ! (num_of_points_m p * 2 - 1)) / delta_s_m p,
            delta_s_m p)"
  by (simp add: finalize_solution_def GetOptimalTrajectory_def Let_def fold_AppendSegment)

text \<open>
  C2, at three stations with step \<open>1\<close> and second derivatives \<open>d'' = (1, 3, 7)\<close>, last
  first derivative \<open>d'\<^sub>2 = 5\<close>: the claim asks for the segments \<open>(2, 1)\<close>, \<open>(4, 1)\<close>; the code
  appends \<open>(x[6] - x[5]) / 1 = 1 - 5 = -4\<close> twice.
\<close>

theorem finalize_solution_repeats_one_jerk:
  "segments (GetOptimalTrajectory
     (finalize_solution (example_opt 3)
        SUCCESS 9 [0, 0, 0, 0, 0, 5, 1, 3, 7] [] [] 9 [] [] 0)) = [(- 4, 1), (- 4, 1)]"
  by (simp add: finalize_solution_segments PiecewiseJerkTrajectory1d_new_def numeral_eq_Suc)

text \<open>
  C5, as the code has it: \<open>finalize_solution\<close> does not read the solver's status. For every
  status it leaves the object exactly as it does for \<open>SUCCESS\<close>, the result trajectory
  grown by \<open>N - 1\<close> segments, and \<open>GetOptimalTrajectory\<close> returns that trajectory
  unconditionally.
\<close>

theorem finalize_solution_ignores_status:
  "finalize_solution p status n x z_L z_U m g lambda obj_value
     = finalize_solution p SUCCESS n x z_L z_U m g lambda obj_value
   \<and> length (segments (GetOptimalTrajectory
        (finalize_solution p status n x z_L z_U m g lambda obj_value)))
     = length (segments (GetOptimalTrajectory p)) + (num_of_points_m p - 1)"
  by (simp add: finalize_solution_segments) (simp add: finalize_solution_def GetOptimalTrajectory_def)

text \<open>
  C5, as stated, fails: with the status \<open>LOCAL_INFEASIBILITY\<close> and two stations the
  trajectory returned afterwards holds a segment.
\<close>

theorem finalize_solution_appends_when_infeasible:
  "segments (GetOptimalTrajectory
     (finalize_solution (example_opt 2)
        LOCAL_INFEASIBILITY 6 [0, 0, 0, 0, 1, 3] [] [] 6 [] [] 0)) = [(1, 1)]"
  by (simp add: finalize_solution_segments PiecewiseJerkTrajectory1d_new_def)

subsection \<open>Continuity residuals\<close>

text \<open>
  The velocity and position rows of \<open>eval_g\<close> for the station pair \<open>(i, i + 1)\<close> are the
  residuals of the simulated constant-jerk segment with the implied jerk.
\<close>

lemma eval_g_continuity_rows:
  assumes "length g = 3 * num_of_points_m p" and "i + 1 < num_of_points_m p"
  shows "snd (eval_g p n x new_x m g) ! (num_of_points_m p - 1 + i) =
           end_velocity
             (ConstantJerkTrajectory1d_new (x ! i) (x ! (num_of_points_m p + i))
                (x ! (2 * num_of_points_m p + i))
                ((x ! (2 * num_of_points_m p + i + 1) - x ! (2 * num_of_points_m p + i))
                   / delta_s_m p)
                (delta_s_m p))
           - x ! (num_of_points_m p + i + 1)"
    and "snd (eval_g p n x new_x m g) ! (2 * (num_of_points_m p - 1) + i) =
           end_position
             (ConstantJerkTrajectory1d_new (x ! i) (x ! (num_of_points_m p + i))
                (x ! (2 * num_of_points_m p + i))
                ((x ! (2 * num_of_points_m p + i + 1) - x ! (2 * num_of_points_m p + i))
                   / delta_s_m p)
                (delta_s_m p))
           - x ! (i + 1)"
proof -
  define N where "N = num_of_points_m p"
  define K where "K = N - 1"
  have K: "size_t_minus N 1 = K" "N - 1 = K"
    using assms(2) by (simp_all add: N_def K_def size_t_minus_def)
  have i: "i < K" "K + i < length g" "2 * K + i < length g" "K + K \<le> 2 * K"
    using assms by (simp_all add: N_def K_def)
  have len: "length (fold (\<lambda>i g. g[i := c i]) [0..<K] g) = length g" for c :: "nat \<Rightarrow> real"
    by simp
  show "snd (eval_g p n x new_x m g) ! (num_of_points_m p - 1 + i) =
           end_velocity
             (ConstantJerkTrajectory1d_new (x ! i) (x ! (num_of_points_m p + i))
                (x ! (2 * num_of_points_m p + i))
                ((x ! (2 * num_of_points_m p + i + 1) - x ! (2 * num_of_points_m p + i))
                   / delta_s_m p)
                (delta_s_m p))
           - x ! (num_of_points_m p + i + 1)"
    unfolding eval_g_def Let_def N_def [symmetric] K snd_conv
    using i by (simp add: nth_list_update nth_fold_upd2)
  show "snd (eval_g p n x new_x m g) ! (2 * (num_of_points_m p - 1) + i) =
           end_position
             (ConstantJerkTrajectory1d_new (x ! i) (x ! (num_of_points_m p + i))
                (x ! (2 * num_of_points_m p + i))
                ((x ! (2 * num_of_points_m p + i + 1) - x ! (2 * num_of_points_m p + i))
                   / delta_s_m p)
                (delta_s_m p))
           - x ! (i + 1)"
    unfolding eval_g_def Let_def N_def [symmetric] K snd_conv
    using i by (simp add: nth_list_update nth_fold_upd2)
qed

text \<open>
  The constant-jerk identity behind the continuity rows: for a step \<open>ds > 0\<close> and the
  implied jerk \<open>(ab - aa) / ds\<close>, the simulated end velocity and end position, less the
  recorded end state, are affine in the start state \<open>(pa, va, aa)\<close> and the end state
  \<open>(pb, vb, ab)\<close>.
\<close>

lemma constant_jerk_residuals_affine:
  assumes "0 < ds"
  shows "end_velocity (ConstantJerkTrajectory1d_new pa va aa ((ab - aa) / ds) ds) - vb
           = (va - vb) + 1 / 2 * ds * (aa + ab)"
    and "end_position (ConstantJerkTrajectory1d_new pa va aa ((ab - aa) / ds) ds) - pb
           = (pa - pb) + va * ds + ds ^ 2 * (aa / 3 + ab / 6)"
proof -
  have nz: "ds \<noteq> 0" using assms by simp
  show "end_velocity (ConstantJerkTrajectory1d_new pa va aa ((ab - aa) / ds) ds) - vb
           = (va - vb) + 1 / 2 * ds * (aa + ab)"
    unfolding end_velocity_def ConstantJerkTrajectory1d_new_def
    using nz by (simp add: power2_eq_square field_simps)
  show "end_position (ConstantJerkTrajectory1d_new pa va aa ((ab - aa) / ds) ds) - pb
           = (pa - pb) + va * ds + ds ^ 2 * (aa / 3 + ab / 6)"
    unfolding end_position_def ConstantJerkTrajectory1d_new_def
    using nz by (simp add: power2_eq_square power3_eq_cube field_simps)
qed

text \<open>
  C6: for every step \<open>delta_s > 0\<close> and every decision vector \<open>x\<close> (all real start states
  \<open>(p0, v0, a0) = (x[i], x[N+i], x[2N+i])\<close> and end states
  \<open>(p1, v1, a1) = (x[i+1], x[N+i+1], x[2N+i+1])\<close>), the continuity residuals that
  \<open>eval_g\<close> computes for the station pair \<open>(i, i + 1)\<close>, by simulating the constant-jerk
  segment with the implied jerk \<open>(a1 - a0) / delta_s\<close>, are the affine closed forms: row
  \<open>N - 1 + i\<close> is \<open>(v0 - v1) + \<onehalf>\<cdot>delta_s\<cdot>(a0 + a1)\<close> and row \<open>2(N - 1) + i\<close> is
  \<open>(p0 - p1) + v0\<cdot>delta_s + delta_s\<^sup>2\<cdot>(a0/3 + a1/6)\<close>.
\<close>

theorem continuity_residuals_affine:
  assumes "0 < delta_s_m p"
    and "length g = 3 * num_of_points_m p"
    and "i + 1 < num_of_points_m p"
  shows "snd (eval_g p n x new_x m g) ! (num_of_points_m p - 1 + i)
           = (x ! (num_of_points_m p + i) - x ! (num_of_points_m p + i + 1))
             + 1 / 2 * delta_s_m p
               * (x ! (2 * num_of_points_m p + i) + x ! (2 * num_of_points_m p + i + 1))
       \<and> snd (eval_g p n x new_x m g) ! (2 * (num_of_points_m p - 1) + i)
           = (x ! i - x ! (i + 1))
             + x ! (num_of_points_m p + i) * delta_s_m p
             + (delta_s_m p) ^ 2
               * (x ! (2 * num_of_points_m p + i) / 3
                  + x ! (2 * num_of_points_m p + i + 1) / 6)"
  unfolding eval_g_continuity_rows [OF assms(2) assms(3)]
    constant_jerk_residuals_affine [OF assms(1)]
  by (rule conjI) (rule refl)+

theorem continuity_residuals_affine_witness:
  "0 < delta_s_m ((example_opt 2)\<lparr>delta_s_m := 2\<rparr>)
   \<and> length (replicate 6 (9::real)) = 3 * num_of_points_m ((example_opt 2)\<lparr>delta_s_m := 2\<rparr>)
   \<and> 0 + 1 < num_of_points_m ((example_opt 2)\<lparr>delta_s_m := 2\<rparr>)
   \<and> snd (eval_g ((example_opt 2)\<lparr>delta_s_m := 2\<rparr>) 6 [0, 4, 1, 5, 1, 3] True 6
            (replicate 6 9)) ! 1
       = (1 - 5) + 1 / 2 * 2 * (1 + 3)
   \<and> snd (eval_g ((example_opt 2)\<lparr>delta_s_m := 2\<rparr>) 6 [0, 4, 1, 5, 1, 3] True 6
            (replicate 6 9)) ! 2
       = (0 - 4) + 1 * 2 + 2 ^ 2 * (1 / 3 + 3 / 6)"
  using continuity_residuals_affine
    [where p = "(example_opt 2)\<lparr>delta_s_m := 2\<rparr>" and g = "replicate 6 9" and i = 0
       and n = 6 and x = "[0, 4, 1, 5, 1, 3]" and new_x = True and m = 6]
  by (simp add: numeral_eq_Suc)

subsection \<open>Constraint Jacobian\<close>

text \<open>
  Both phases walk the same number of entries, \<open>11\<cdot>(N - 1) + 3\<close>: the structure phase
  stores that count in \<^verbatim>\<open>nnz_jac_g_\<close>, and on an object that holds it the value phase
  passes its final check and returns the values.
\<close>

lemma fst_fold_step:
  assumes "\<And>i s. fst (f i s) = fst s + c"
  shows "fst (fold f is s) = fst s + c * length is"
  by (induction "is" arbitrary: s) (simp_all add: assms)

lemma fst_put_value [simp]: "fst (put_value v s) = fst s + 1"
  by (simp add: put_value_def split: prod.splits)

lemma fst_put_entry [simp]: "fst (put_entry c s) = fst s + 1"
  by (simp add: put_entry_def split: prod.splits)

lemma fst_next_constraint [simp]: "fst (next_constraint s) = fst s"
  by (simp add: next_constraint_def split: prod.splits)

lemma eval_jac_g_structure_count:
  assumes "size_t_of_int n = num_of_points_m p * 3"
    and "size_t_of_int m = num_of_points_m p * 3"
  shows "\<exists>iRow' jCol'.
           eval_jac_g p n x new_x m nele_jac iRow jCol None
             = Inr (True, p\<lparr>nnz_jac_g_m := 11 * (num_of_points_m p - 1) + 3\<rparr>,
                    iRow', jCol', None)"
proof -
  define s where "s = put_entry (2 * num_of_points_m p) (put_entry (num_of_points_m p) (put_entry 0
    (fold (\<lambda>variable_index s.
                            next_constraint
                              (put_entry (2 * num_of_points_m p + variable_index + 1)
                                (put_entry (2 * num_of_points_m p + variable_index)
                                  (put_entry (num_of_points_m p + variable_index)
                                    (put_entry (variable_index + 1)
                                      (put_entry variable_index s))))))
                      [0..<num_of_points_m p - 1]
    (fold (\<lambda>variable_index s.
                            next_constraint
                              (put_entry (2 * num_of_points_m p + variable_index + 1)
                                (put_entry (2 * num_of_points_m p + variable_index)
                                  (put_entry (num_of_points_m p + variable_index + 1)
                                    (put_entry (num_of_points_m p + variable_index) s)))))
                      [0..<num_of_points_m p - 1]
    (fold (\<lambda>variable_index s.
                            next_constraint
                              (put_entry (2 * num_of_points_m p + variable_index + 1)
                                (put_entry (2 * num_of_points_m p + variable_index) s)))
                      [0..<num_of_points_m p - 1] (0, 0, iRow, jCol))))))"
  have "fst s = 11 * (num_of_points_m p - 1) + 3"
    unfolding s_def
    by (simp add: fst_fold_step [where c = 2] fst_fold_step [where c = 4]
        fst_fold_step [where c = 5])
  moreover have "eval_jac_g p n x new_x m nele_jac iRow jCol None =
     (case s of (nz_index, constraint_index, iRow, jCol) \<Rightarrow>
                  Inr (True, p\<lparr>nnz_jac_g_m := nz_index\<rparr>, iRow, jCol, None))"
    using assms unfolding eval_jac_g_def s_def Let_def by simp
  ultimately show ?thesis
    by (cases s) auto
qed

lemma eval_jac_g_values_succeed:
  assumes "size_t_of_int n = num_of_points_m p * 3"
    and "size_t_of_int m = num_of_points_m p * 3"
    and "nnz_jac_g_m p = 11 * (num_of_points_m p - 1) + 3"
  shows "\<exists>values'.
           eval_jac_g p n x new_x m nele_jac iRow jCol (Some values)
             = Inr (True, p, iRow, jCol, Some values')"
proof -
  define s where "s = fold (\<lambda>order s. put_value 1 s) [0..<3]
     (fold (\<lambda>variable_index s.
                            put_value (delta_s_m p * delta_s_m p / 6)
                              (put_value (delta_s_m p * delta_s_m p / 3)
                                (put_value (delta_s_m p)
                                  (put_value (- 1) (put_value 1 s)))))
                      [0..<num_of_points_m p - 1]
     (fold (\<lambda>variable_index s.
                            put_value (1 / 2 * delta_s_m p)
                              (put_value (1 / 2 * delta_s_m p)
                                (put_value (- 1) (put_value 1 s))))
                      [0..<num_of_points_m p - 1]
     (fold (\<lambda>variable_index s. put_value (- 1) (put_value 1 s))
                      [0..<num_of_points_m p - 1] (0, fill values (nnz_jac_g_m p) 0))))"
  have "fst s = 11 * (num_of_points_m p - 1) + 3"
    unfolding s_def
    by (simp add: fst_fold_step [where c = 2] fst_fold_step [where c = 4]
        fst_fold_step [where c = 5] fst_fold_step [where c = 1])
  moreover have "eval_jac_g p n x new_x m nele_jac iRow jCol (Some values) =
     (case s of (nz_index, values) \<Rightarrow>
                  if nz_index \<noteq> nnz_jac_g_m p then Inl CheckFailed
                  else Inr (True, p, iRow, jCol, Some values))"
    using assms(1,2) unfolding eval_jac_g_def s_def Let_def by simp
  ultimately show ?thesis
    using assms(3) by (cases s) auto
qed

text \<open>
  C7: two value-phase evaluations of \<open>eval_jac_g\<close> on the same object and buffers, at
  decision vectors \<open>x1\<close> and \<open>x2\<close> (and any values of the \<open>new_x\<close> flag), give the same
  result, value array included: the values do not depend on \<open>x\<close>.
\<close>

theorem eval_jac_g_values_independent_of_x:
  "eval_jac_g p n x1 new_x1 m nele_jac iRow jCol (Some values)
     = eval_jac_g p n x2 new_x2 m nele_jac iRow jCol (Some values)"
  by (simp add: eval_jac_g_def)

text \<open>
  C1, at two stations with step \<open>1\<close>. The structure phase reports fourteen entries; the
  value phase fills them; \<open>eval_g\<close> at \<open>x = (x0, \<dots>, x5)\<close> returns six residuals that are
  affine in \<open>x\<close>, so that their exact partial derivatives are the coefficients read off
  below. The two disagree:
  \<^item> row \<open>0\<close> of \<open>eval_g\<close> is \<open>x5 - x4\<close>, with derivative \<open>-1\<close> in column \<open>4\<close> (the second
    derivative at station \<open>0\<close>) and \<open>+1\<close> in column \<open>5\<close> (the one at station \<open>1\<close>); the
    Jacobian stores \<open>+1\<close> at \<open>(0, 4)\<close> and \<open>-1\<close> at \<open>(0, 5)\<close>;
  \<^item> rows \<open>3\<close>, \<open>4\<close>, \<open>5\<close> of \<open>eval_g\<close> are \<open>x0\<close>, \<open>x2\<close>, \<open>x4\<close> minus the initial state, with
    derivative \<open>1\<close> at \<open>(3, 0)\<close>, \<open>(4, 2)\<close>, \<open>(5, 4)\<close>; the Jacobian stores its last three
    entries at \<open>(3, 0)\<close>, \<open>(3, 2)\<close>, \<open>(3, 4)\<close> and has no entry in rows \<open>4\<close> and \<open>5\<close>.
  Rows \<open>1\<close> and \<open>2\<close> (velocity and position continuity) agree.
\<close>

theorem eval_jac_g_contradicts_eval_g:
  "eval_jac_g (example_opt 2) 6 x new_x 6 14 (replicate 14 0) (replicate 14 0) None
     = Inr (True, (example_opt 2)\<lparr>nnz_jac_g_m := 14\<rparr>,
            [0, 0, 1, 1, 1, 1, 2, 2, 2, 2, 2, 3, 3, 3],
            [4, 5, 2, 3, 4, 5, 0, 1, 2, 4, 5, 0, 2, 4], None)
   \<and> eval_jac_g ((example_opt 2)\<lparr>nnz_jac_g_m := 14\<rparr>) 6 x new_x 6 14 iRow jCol
         (Some (replicate 14 9))
     = Inr (True, (example_opt 2)\<lparr>nnz_jac_g_m := 14\<rparr>, iRow, jCol,
            Some [1, - 1, 1, - 1, 1 / 2, 1 / 2, 1, - 1, 1, 1 / 3, 1 / 6, 1, 1, 1])
   \<and> eval_g (example_opt 2) 6 [x0, x1, x2, x3, x4, x5] new_x 6 (replicate 6 9)
     = (True, [x5 - x4,
               (x2 - x3) + 1 / 2 * (x4 + x5),
               (x0 - x1) + x2 + x4 / 3 + x5 / 6,
               x0, x2, x4])"
proof (intro conjI)
  show "eval_jac_g (example_opt 2) 6 x new_x 6 14 (replicate 14 0) (replicate 14 0) None
     = Inr (True, (example_opt 2)\<lparr>nnz_jac_g_m := 14\<rparr>,
            [0, 0, 1, 1, 1, 1, 2, 2, 2, 2, 2, 3, 3, 3],
            [4, 5, 2, 3, 4, 5, 0, 1, 2, 4, 5, 0, 2, 4], None)"
    by (simp add: eval_jac_g_def size_t_of_int_def upt_rec put_entry_def next_constraint_def
        numeral_eq_Suc)
  show "eval_jac_g ((example_opt 2)\<lparr>nnz_jac_g_m := 14\<rparr>) 6 x new_x 6 14 iRow jCol
         (Some (replicate 14 9))
     = Inr (True, (example_opt 2)\<lparr>nnz_jac_g_m := 14\<rparr>, iRow, jCol,
            Some [1, - 1, 1, - 1, 1 / 2, 1 / 2, 1, - 1, 1, 1 / 3, 1 / 6, 1, 1, 1])"
    by (simp add: eval_jac_g_def size_t_of_int_def upt_rec put_value_def fill_def numeral_eq_Suc)
  show "eval_g (example_opt 2) 6 [x0, x1, x2, x3, x4, x5] new_x 6 (replicate 6 9)
     = (True, [x5 - x4,
               (x2 - x3) + 1 / 2 * (x4 + x5),
               (x0 - x1) + x2 + x4 / 3 + x5 / 6,
               x0, x2, x4])"
    by (simp add: eval_g_def size_t_minus_def upt_rec numeral_eq_Suc end_velocity_def
        end_position_def ConstantJerkTrajectory1d_new_def Let_def field_simps)
qed

subsection \<open>Hessian of the Lagrangian\<close>

text \<open>
  C3, as the code has it: for every \<open>x\<close>, \<open>obj_factor\<close> and \<open>lambda\<close>, with buffers of \<open>3N\<close>
  entries, the structure phase of \<open>eval_h\<close> reports exactly the \<open>3N\<close> diagonal positions
  \<open>(i, i)\<close>, and the value phase stores the constant \<open>4\<close> at every index of the \<open>d\<close> block
  \<open>[0, N)\<close> and the constant \<open>2\<close> at every index of the two derivative blocks \<open>[N, 3N)\<close>.
  The values do not depend on \<open>obj_factor\<close>; they are \<open>4\<cdot>obj_factor\<close> and \<open>2\<cdot>obj_factor\<close>
  when \<open>obj_factor = 1\<close>.
\<close>

theorem eval_h_diagonal_constant:
  assumes "length iRow = 3 * num_of_points_m p"
    and "length jCol = 3 * num_of_points_m p"
    and "length values = 3 * num_of_points_m p"
  shows "eval_h p n x new_x obj_factor m lambda new_lambda nele_hess iRow jCol None
           = (True, map int [0..<3 * num_of_points_m p],
                    map int [0..<3 * num_of_points_m p], None)
       \<and> eval_h p n x new_x obj_factor m lambda new_lambda nele_hess iRow jCol (Some values)
           = (True, iRow, jCol,
              Some (replicate (num_of_points_m p) 4 @ replicate (2 * num_of_points_m p) 2))"
proof
  show "eval_h p n x new_x obj_factor m lambda new_lambda nele_hess iRow jCol None
           = (True, map int [0..<3 * num_of_points_m p],
                    map int [0..<3 * num_of_points_m p], None)"
    using assms
    by (auto simp: eval_h_def fold_pair_split nth_fold_upd0 intro!: nth_equalityI)
  show "eval_h p n x new_x obj_factor m lambda new_lambda nele_hess iRow jCol (Some values)
           = (True, iRow, jCol,
              Some (replicate (num_of_points_m p) 4 @ replicate (2 * num_of_points_m p) 2))"
    using assms
    by (auto simp: eval_h_def Let_def nth_fold_upd0 nth_append intro!: nth_equalityI)
qed

theorem eval_h_diagonal_constant_witness:
  "length [7, 7, 7 :: int] = 3 * num_of_points_m (example_opt 1)
   \<and> length [0, 0, 0 :: real] = 3 * num_of_points_m (example_opt 1)
   \<and> eval_h (example_opt 1) 3 [1, 1, 1] True 5 3 [1, 1, 1] True 3 [7, 7, 7] [7, 7, 7] None
       = (True, [0, 1, 2], [0, 1, 2], None)
   \<and> eval_h (example_opt 1) 3 [1, 1, 1] True 5 3 [1, 1, 1] True 3 [7, 7, 7] [7, 7, 7]
         (Some [0, 0, 0])
       = (True, [7, 7, 7], [7, 7, 7], Some [4, 2, 2])"
  using eval_h_diagonal_constant [of "[7, 7, 7]" "example_opt 1" "[7, 7, 7]" "[0, 0, 0]"
      3 "[1, 1, 1]" True 5 3 "[1, 1, 1]" True 3]
  by (simp add: upt_rec numeral_eq_Suc)

text \<open>
  C3, as stated, fails: with \<open>obj_factor = 2\<close> and one station the values are \<open>4, 2, 2\<close>,
  not \<open>8, 4, 4\<close>.
\<close>

theorem eval_h_ignores_obj_factor:
  "eval_h (example_opt 1) 3 [1, 1, 1] True 2 3 [1, 1, 1] True 3 [0, 1, 2] [0, 1, 2]
       (Some [0, 0, 0])
     = (True, [0, 1, 2], [0, 1, 2], Some [4, 2, 2])
   \<and> [4, 2, 2] \<noteq> [4 * 2, 2 * 2, 2 * (2::real)]"
  by (simp add: eval_h_def upt_rec)

subsection \<open>Bounds\<close>

lemma bounds_of_constraints:
  fixes b :: "real list"
  assumes "length b = 3 * K + 3"
  shows "(fold (\<lambda>i b. b[2 * K + i := 0]) [0..<K]
            (fold (\<lambda>i b. b[K + i := 0]) [0..<K]
              (fold (\<lambda>i b. b[i := c]) [0..<K] b)))
           [3 * K := 0, 3 * K + 1 := 0, 3 * K + 2 := 0]
         = replicate K c @ replicate (2 * K + 3) 0"
proof (rule nth_equalityI)
  show "length ((fold (\<lambda>i b. b[2 * K + i := 0]) [0..<K]
            (fold (\<lambda>i b. b[K + i := 0]) [0..<K]
              (fold (\<lambda>i b. b[i := c]) [0..<K] b)))
           [3 * K := 0, 3 * K + 1 := 0, 3 * K + 2 := 0])
        = length (replicate K c @ replicate (2 * K + 3) 0)"
    using assms by simp
next
  fix i
  assume "i < length ((fold (\<lambda>i b. b[2 * K + i := 0]) [0..<K]
            (fold (\<lambda>i b. b[K + i := 0]) [0..<K]
              (fold (\<lambda>i b. b[i := c]) [0..<K] b)))
           [3 * K := 0, 3 * K + 1 := 0, 3 * K + 2 := 0])"
  then have i: "i < 3 * K + 3" using assms by simp
  have r: "(replicate K c @ replicate (2 * K + 3) 0) ! i = (if i < K then c else 0)"
    using i by (simp add: nth_append)
  have l: "(fold (\<lambda>i b. b[2 * K + i := 0]) [0..<K]
            (fold (\<lambda>i b. b[K + i := 0]) [0..<K]
              (fold (\<lambda>i b. b[i := c]) [0..<K] b)))
           [3 * K := 0, 3 * K + 1 := 0, 3 * K + 2 := 0] ! i = (if i < K then c else 0)"
    using i assms by (auto simp: nth_list_update nth_fold_upd nth_fold_upd0)
  show "(fold (\<lambda>i b. b[2 * K + i := 0]) [0..<K]
            (fold (\<lambda>i b. b[K + i := 0]) [0..<K]
              (fold (\<lambda>i b. b[i := c]) [0..<K] b)))
           [3 * K := 0, 3 * K + 1 := 0, 3 * K + 2 := 0] ! i
        = (replicate K c @ replicate (2 * K + 3) 0) ! i"
    unfolding l r ..
qed

lemma bounds_of_variables:
  fixes b :: "real list"
  assumes "length b = 3 * N" and "length d = N"
  shows "fold (\<lambda>i b. b[2 * N + i := c]) [0..<N]
           (fold (\<lambda>i b. b[N + i := c]) [0..<N]
             (fold (\<lambda>i b. b[i := f (d ! i)]) [0..<N] b))
         = map f d @ replicate (2 * N) c"
  using assms by (auto simp: nth_fold_upd nth_fold_upd0 nth_append intro!: nth_equalityI)

text \<open>
  C9: for an object with at least one point, whose corridor sequence has as many pairs
  as there are points, and buffers of \<open>3N\<close> entries, \<open>get_bounds_info\<close> fills the variable
  bounds with the corridors for the \<open>d\<close> block and with \<open>-10\<close> and \<open>10\<close> for the two
  derivative blocks, and the constraint bounds with minus and plus the jerk bound times
  \<open>delta_s\<close> for the \<open>N - 1\<close> rows of block 1 and with \<open>0\<close>, lower and upper, for all
  \<open>2N + 1\<close> remaining rows.
\<close>

theorem get_bounds_info_bounds:
  assumes "0 < num_of_points_m p"
    and "length (d_bounds_m p) = num_of_points_m p"
    and "length x_l = 3 * num_of_points_m p"
    and "length x_u = 3 * num_of_points_m p"
    and "length g_l = 3 * num_of_points_m p"
    and "length g_u = 3 * num_of_points_m p"
  shows "get_bounds_info p n x_l x_u m g_l g_u =
     (True,
      map fst (d_bounds_m p) @ replicate (2 * num_of_points_m p) (- 10),
      map snd (d_bounds_m p) @ replicate (2 * num_of_points_m p) 10,
      replicate (num_of_points_m p - 1) (- d_ppprime_max_m p * delta_s_m p)
        @ replicate (2 * num_of_points_m p + 1) 0,
      replicate (num_of_points_m p - 1) (d_ppprime_max_m p * delta_s_m p)
        @ replicate (2 * num_of_points_m p + 1) 0)"
proof -
  define N where "N = num_of_points_m p"
  define K where "K = N - 1"
  have N: "length (d_bounds_m p) = N" "length x_l = 3 * N" "length x_u = 3 * N"
    using assms by (simp_all add: N_def)
  have K: "size_t_minus N 1 = K" "N - 1 = K" "2 * N + 1 = 2 * K + 3"
    using assms(1) by (simp_all add: N_def K_def size_t_minus_def)
  have g: "length g_l = 3 * K + 3" "length g_u = 3 * K + 3"
    using assms by (simp_all add: N_def K_def)
  show ?thesis
    unfolding get_bounds_info_def Let_def fold_pair_split prod.case N_def [symmetric] K
      bounds_of_variables [OF N(2) N(1)] bounds_of_variables [OF N(3) N(1)]
      bounds_of_constraints [OF g(1)] bounds_of_constraints [OF g(2)]
    ..
qed

theorem get_bounds_info_bounds_witness:
  "0 < num_of_points_m ((example_opt 2)\<lparr>d_ppprime_max_m := 4, delta_s_m := 1 / 2\<rparr>)
   \<and> length (d_bounds_m ((example_opt 2)\<lparr>d_ppprime_max_m := 4, delta_s_m := 1 / 2\<rparr>))
       = num_of_points_m ((example_opt 2)\<lparr>d_ppprime_max_m := 4, delta_s_m := 1 / 2\<rparr>)
   \<and> length (replicate 6 (7::real))
       = 3 * num_of_points_m ((example_opt 2)\<lparr>d_ppprime_max_m := 4, delta_s_m := 1 / 2\<rparr>)
   \<and> get_bounds_info ((example_opt 2)\<lparr>d_ppprime_max_m := 4, delta_s_m := 1 / 2\<rparr>)
         6 (replicate 6 7) (replicate 6 7) 6 (replicate 6 7) (replicate 6 7)
       = (True, [- 1, - 1, - 10, - 10, - 10, - 10], [1, 1, 10, 10, 10, 10],
                [- 2, 0, 0, 0, 0, 0], [2, 0, 0, 0, 0, 0])"
  using get_bounds_info_bounds
    [of "(example_opt 2)\<lparr>d_ppprime_max_m := 4, delta_s_m := 1 / 2\<rparr>"
        "replicate 6 7" "replicate 6 7" "replicate 6 7" "replicate 6 7" 6 6]
  by (simp add: numeral_eq_Suc)

subsection \<open>Starting point\<close>

text \<open>
  What \<open>get_starting_point\<close> writes when its checks pass: zero everywhere except at the
  indices \<open>0\<close>, \<open>N\<close> and \<open>2N\<close>, which receive the members \<^verbatim>\<open>d_init_\<close>, \<^verbatim>\<open>d_prime_init_\<close> and
  \<^verbatim>\<open>d_pprime_init_\<close>; the multiplier buffers are returned as they came; the return
  value is \<open>false\<close>.
\<close>

lemma get_starting_point_result:
  assumes "size_t_of_int n = num_of_points_m p * 3"
    and "init_x" and "\<not> init_z" and "\<not> init_lambda"
    and "length x = 3 * num_of_points_m p"
  shows "get_starting_point p n init_x x init_z z_L z_U m init_lambda lambda =
     Inr (False,
          (replicate (3 * num_of_points_m p) 0)
            [0 := d_init_m p,
             num_of_points_m p := d_prime_init_m p,
             num_of_points_m p + num_of_points_m p := d_pprime_init_m p],
          z_L, z_U, lambda)"
proof -
  define N where "N = num_of_points_m p"
  have "fold (\<lambda>i x. x[i := 0, N + i := 0, N + N + i := 0]) [0..<N] x = replicate (3 * N) 0"
  proof (rule nth_equalityI)
    show "length (fold (\<lambda>i x. x[i := 0, N + i := 0, N + N + i := 0]) [0..<N] x)
            = length (replicate (3 * N) (0::real))"
      using assms(5) by (simp add: length_fold_upd3 N_def)
  next
    fix j
    assume "j < length (fold (\<lambda>i x. x[i := 0, N + i := 0, N + N + i := 0]) [0..<N] x)"
    then have j: "j < 3 * N" "j < length x"
      using assms(5) by (simp_all add: length_fold_upd3 N_def)
    then have "j < N \<or> (N \<le> j \<and> j < N + N) \<or> (N + N \<le> j \<and> j < N + N + N)"
      by arith
    then show "fold (\<lambda>i x. x[i := 0, N + i := 0, N + N + i := 0]) [0..<N] x ! j
                 = replicate (3 * N) 0 ! j"
      using j by (simp add: nth_fold_upd3)
  qed
  then show ?thesis
    using assms(1-4) by (simp add: get_starting_point_def N_def)
qed

text \<open>
  C10, on an object constructed with the initial state \<open>(1, 2, 3)\<close> over two corridors:
  the claim asks for the starting point \<open>(1, 0, 2, 0, 3, 0)\<close>. The constructor does not
  store its initial-state arguments in the members that \<open>get_starting_point\<close> reads, so
  the starting point holds whatever the members held before construction.
\<close>

theorem get_starting_point_ignores_constructor_state:
  "bind (LateralTrajectoryOptimizer_new hdr 1 2 3 1 [(- 1, 1), (- 1, 1)])
     (\<lambda>p. get_starting_point p 6 True [9, 9, 9, 9, 9, 9] False [] [] 6 False [])
   = Inr (False, [d_init_m hdr, 0, d_prime_init_m hdr, 0, d_pprime_init_m hdr, 0], [], [], [])"
  by (simp add: LateralTrajectoryOptimizer_new_def get_starting_point_def size_t_of_int_def upt_rec)

end
